theory Spec2Isabelle
  imports Complex_Main "HOL-Library.Signed_Division"
begin

section \<open>The calibration header \<open>servo_04.h\<close>\<close>

text \<open>
  The header consists of fifteen object-like macros.  Thirteen of them expand to a
  decimal literal (two of these with a unary minus in front), two expand to an
  expression over the others.  Every literal has C type \<open>int\<close>, so each macro is
  embedded as a constant of type \<open>int\<close> that keeps the macro's name.  The operator
  \<open>/\<close> of C on \<open>int\<close> truncates towards zero; it is embedded as \<open>sdiv\<close>, not as the
  flooring \<open>div\<close> of HOL.
\<close>

definition NANO_ID :: int where
  "NANO_ID = 4"

definition FEEDBACK_PWM_MIN :: int where
  "FEEDBACK_PWM_MIN = 504"

definition FEEDBACK_PWM_MAX :: int where
  "FEEDBACK_PWM_MAX = 1509"

definition FEEDBACK_PWM_MIDDLE :: int where
  "FEEDBACK_PWM_MIDDLE = (FEEDBACK_PWM_MAX + FEEDBACK_PWM_MIN) sdiv 2"

definition COMMAND_PWM_MIN :: int where
  "COMMAND_PWM_MIN = 491"

definition COMMAND_PWM_MAX :: int where
  "COMMAND_PWM_MAX = 1495"

definition COMMAND_PWM_RANGE :: int where
  "COMMAND_PWM_RANGE = COMMAND_PWM_MAX - COMMAND_PWM_MIN"

definition CLOCKWISE_PWM_MIN :: int where
  "CLOCKWISE_PWM_MIN = 2094"

definition CLOCKWISE_PWM_MAX :: int where
  "CLOCKWISE_PWM_MAX = 2194"

definition CLOCKWISE_SPEED_MIN :: int where
  "CLOCKWISE_SPEED_MIN = 130"

definition CLOCKWISE_SPEED_MAX :: int where
  "CLOCKWISE_SPEED_MAX = 283"

definition ANTICLOCKWISE_PWM_MIN :: int where
  "ANTICLOCKWISE_PWM_MIN = 1891"

definition ANTICLOCKWISE_PWM_MAX :: int where
  "ANTICLOCKWISE_PWM_MAX = 1800"

definition ANTICLOCKWISE_SPEED_MIN :: int where
  "ANTICLOCKWISE_SPEED_MIN = - 133"

definition ANTICLOCKWISE_SPEED_MAX :: int where
  "ANTICLOCKWISE_SPEED_MAX = - 281"

text \<open>
  The target of the header is an 8-bit AVR board, where \<open>int\<close> has 16 bits.  The
  predicate below is the range of that type; lemma \<open>servo_04_fits_int16\<close> shows that
  every macro and the one intermediate sum of the header stay inside it, so the unbounded
  \<open>int\<close> of HOL computes what the 16-bit arithmetic computes.
\<close>

definition fits_int16 :: "int \<Rightarrow> bool" where
  "fits_int16 x = (- 32768 \<le> x \<and> x \<le> 32767)"

subsection \<open>PWM intervals and speed bands spanned by the macros\<close>

text \<open>
  Membership in the closed intervals that the pairs of macros delimit.  The anticlockwise
  pair is written in the header with the larger PWM under \<open>MIN\<close> and the smaller under
  \<open>MAX\<close> (and likewise for its speeds), so its intervals take the endpoints in numeric
  order.
\<close>

definition in_feedback_band :: "int \<Rightarrow> bool" where
  "in_feedback_band pwm = (FEEDBACK_PWM_MIN \<le> pwm \<and> pwm \<le> FEEDBACK_PWM_MAX)"

definition in_command_interval :: "int \<Rightarrow> bool" where
  "in_command_interval pwm = (COMMAND_PWM_MIN \<le> pwm \<and> pwm \<le> COMMAND_PWM_MAX)"

definition in_clockwise_pwm_band :: "int \<Rightarrow> bool" where
  "in_clockwise_pwm_band pwm = (CLOCKWISE_PWM_MIN \<le> pwm \<and> pwm \<le> CLOCKWISE_PWM_MAX)"

definition in_anticlockwise_pwm_band :: "int \<Rightarrow> bool" where
  "in_anticlockwise_pwm_band pwm =
     (ANTICLOCKWISE_PWM_MAX \<le> pwm \<and> pwm \<le> ANTICLOCKWISE_PWM_MIN)"

definition in_clockwise_speed_band :: "int \<Rightarrow> bool" where
  "in_clockwise_speed_band s = (CLOCKWISE_SPEED_MIN \<le> s \<and> s \<le> CLOCKWISE_SPEED_MAX)"

definition in_anticlockwise_speed_band :: "int \<Rightarrow> bool" where
  "in_anticlockwise_speed_band s =
     (ANTICLOCKWISE_SPEED_MAX \<le> s \<and> s \<le> ANTICLOCKWISE_SPEED_MIN)"

section \<open>The conversions that read the header\<close>

text \<open>
  The header is data only; the routines that consume it are not part of the sources at
  hand.  The definitions of this section are therefore modelled from the specification's
  description of the three conversions, over the constants embedded above.
\<close>

text \<open>
  Modelled from the spec: the error type of the conversions, which the sources do not
  declare.  Its only error kind is signalled when a conversion input falls outside every
  defined band.
\<close>

datatype error = OutOfCalibratedRange

text \<open>
  Modelled from the spec: the linear interpolation that the conversions share, absent
  from the sources like them.  It maps the segment \<open>[x0, x1]\<close> onto \<open>[y0, y1]\<close>.  The
  integer version multiplies first and then divides with C's truncating
  quotient; the rational version is the exact map.  Either pair of endpoints may be given
  in descending order, which is how the anticlockwise macros give them.
\<close>

definition interpolate :: "int \<Rightarrow> int \<Rightarrow> int \<Rightarrow> int \<Rightarrow> int \<Rightarrow> int" where
  "interpolate x0 x1 y0 y1 x = y0 + ((x - x0) * (y1 - y0)) sdiv (x1 - x0)"

definition interpolate_rat :: "rat \<Rightarrow> rat \<Rightarrow> rat \<Rightarrow> rat \<Rightarrow> rat \<Rightarrow> rat" where
  "interpolate_rat x0 x1 y0 y1 x = y0 + ((x - x0) * (y1 - y0)) / (x1 - x0)"

text \<open>
  Modelled from the spec: the conversion \<open>feedbackPwmToPosition\<close>, which the sources do
  not contain.  It maps a raw feedback PWM sample linearly onto the normalized position
  range, with \<open>FEEDBACK_PWM_MIN\<close> and \<open>FEEDBACK_PWM_MAX\<close> as
  the extremes 0 and 1.  A sample outside the feedback band is reported as
  \<open>OutOfCalibratedRange\<close> (the specification's example for the input 3000), not clamped.
\<close>

definition feedbackPwmToPosition :: "int \<Rightarrow> error + rat" where
  "feedbackPwmToPosition pwm =
     (if in_feedback_band pwm
      then Inr (interpolate_rat (of_int FEEDBACK_PWM_MIN) (of_int FEEDBACK_PWM_MAX) 0 1
                  (of_int pwm))
      else Inl OutOfCalibratedRange)"

text \<open>
  Modelled from the spec: the neutral command PWM, which neither the header nor any other
  source gives.  The specification says that the speed zero maps to a neutral command
  PWM and leaves the value to the integrator, so the conversions below take it as their
  first parameter \<open>neutral\<close>.  No deadband around it is defined, so zero is the only
  speed that maps to it.
\<close>

text \<open>
  Modelled from the spec: the conversion \<open>speedToCommandPwm\<close>, which the sources do not
  contain.  It selects the clockwise or the anticlockwise band by the sign of the speed
  and interpolates from that band's speed bounds to its PWM bounds, each \<open>SPEED_MIN\<close>
  paired with its \<open>PWM_MIN\<close> and each \<open>SPEED_MAX\<close> with its \<open>PWM_MAX\<close>.  A non-zero
  speed that lies outside the band of its sign is reported as \<open>OutOfCalibratedRange\<close>.
  The speed zero maps to the neutral command PWM.
\<close>

definition speedToCommandPwm :: "int \<Rightarrow> int \<Rightarrow> error + int" where
  "speedToCommandPwm neutral speed =
     (if 0 < speed then
        (if in_clockwise_speed_band speed
         then Inr (interpolate CLOCKWISE_SPEED_MIN CLOCKWISE_SPEED_MAX
                     CLOCKWISE_PWM_MIN CLOCKWISE_PWM_MAX speed)
         else Inl OutOfCalibratedRange)
      else if speed < 0 then
        (if in_anticlockwise_speed_band speed
         then Inr (interpolate ANTICLOCKWISE_SPEED_MIN ANTICLOCKWISE_SPEED_MAX
                     ANTICLOCKWISE_PWM_MIN ANTICLOCKWISE_PWM_MAX speed)
         else Inl OutOfCalibratedRange)
      else Inr neutral)"

text \<open>
  Modelled from the spec: the conversion \<open>commandPwmToSpeed\<close>, which the sources do not
  contain.  It is the inverse of \<open>speedToCommandPwm\<close>; the band is selected by the PWM
  interval the sample falls into.  A sample in neither band that is the neutral command
  PWM gives the speed zero, and every other sample is reported as
  \<open>OutOfCalibratedRange\<close>.  The two bands are tested first, so a neutral value chosen
  inside a band does not hide that band's sample.
\<close>

definition commandPwmToSpeed :: "int \<Rightarrow> int \<Rightarrow> error + int" where
  "commandPwmToSpeed neutral pwm =
     (if in_clockwise_pwm_band pwm
      then Inr (interpolate CLOCKWISE_PWM_MIN CLOCKWISE_PWM_MAX
                  CLOCKWISE_SPEED_MIN CLOCKWISE_SPEED_MAX pwm)
      else if in_anticlockwise_pwm_band pwm
      then Inr (interpolate ANTICLOCKWISE_PWM_MIN ANTICLOCKWISE_PWM_MAX
                  ANTICLOCKWISE_SPEED_MIN ANTICLOCKWISE_SPEED_MAX pwm)
      else if pwm = neutral then Inr 0
      else Inl OutOfCalibratedRange)"

text \<open>
  Modelled from the spec: the same two conversions, absent from the sources, with the
  interpolation carried out over the rationals, the band tests on rational inputs and a
  rational neutral command PWM.
\<close>

definition in_clockwise_speed_band_rat :: "rat \<Rightarrow> bool" where
  "in_clockwise_speed_band_rat s =
     (of_int CLOCKWISE_SPEED_MIN \<le> s \<and> s \<le> of_int CLOCKWISE_SPEED_MAX)"

definition in_anticlockwise_speed_band_rat :: "rat \<Rightarrow> bool" where
  "in_anticlockwise_speed_band_rat s =
     (of_int ANTICLOCKWISE_SPEED_MAX \<le> s \<and> s \<le> of_int ANTICLOCKWISE_SPEED_MIN)"

definition in_clockwise_pwm_band_rat :: "rat \<Rightarrow> bool" where
  "in_clockwise_pwm_band_rat pwm =
     (of_int CLOCKWISE_PWM_MIN \<le> pwm \<and> pwm \<le> of_int CLOCKWISE_PWM_MAX)"

definition in_anticlockwise_pwm_band_rat :: "rat \<Rightarrow> bool" where
  "in_anticlockwise_pwm_band_rat pwm =
     (of_int ANTICLOCKWISE_PWM_MAX \<le> pwm \<and> pwm \<le> of_int ANTICLOCKWISE_PWM_MIN)"

definition speedToCommandPwm_rat :: "rat \<Rightarrow> rat \<Rightarrow> error + rat" where
  "speedToCommandPwm_rat neutral speed =
     (if 0 < speed then
        (if in_clockwise_speed_band_rat speed
         then Inr (interpolate_rat (of_int CLOCKWISE_SPEED_MIN) (of_int CLOCKWISE_SPEED_MAX)
                     (of_int CLOCKWISE_PWM_MIN) (of_int CLOCKWISE_PWM_MAX) speed)
         else Inl OutOfCalibratedRange)
      else if speed < 0 then
        (if in_anticlockwise_speed_band_rat speed
         then Inr (interpolate_rat (of_int ANTICLOCKWISE_SPEED_MIN)
                     (of_int ANTICLOCKWISE_SPEED_MAX) (of_int ANTICLOCKWISE_PWM_MIN)
                     (of_int ANTICLOCKWISE_PWM_MAX) speed)
         else Inl OutOfCalibratedRange)
      else Inr neutral)"

definition commandPwmToSpeed_rat :: "rat \<Rightarrow> rat \<Rightarrow> error + rat" where
  "commandPwmToSpeed_rat neutral pwm =
     (if in_clockwise_pwm_band_rat pwm
      then Inr (interpolate_rat (of_int CLOCKWISE_PWM_MIN) (of_int CLOCKWISE_PWM_MAX)
                  (of_int CLOCKWISE_SPEED_MIN) (of_int CLOCKWISE_SPEED_MAX) pwm)
      else if in_anticlockwise_pwm_band_rat pwm
      then Inr (interpolate_rat (of_int ANTICLOCKWISE_PWM_MIN) (of_int ANTICLOCKWISE_PWM_MAX)
                  (of_int ANTICLOCKWISE_SPEED_MIN) (of_int ANTICLOCKWISE_SPEED_MAX) pwm)
      else if pwm = neutral then Inr 0
      else Inl OutOfCalibratedRange)"

section \<open>Facts about the header\<close>

lemmas servo_04_literals =
  NANO_ID_def FEEDBACK_PWM_MIN_def FEEDBACK_PWM_MAX_def COMMAND_PWM_MIN_def
  COMMAND_PWM_MAX_def CLOCKWISE_PWM_MIN_def CLOCKWISE_PWM_MAX_def
  CLOCKWISE_SPEED_MIN_def CLOCKWISE_SPEED_MAX_def ANTICLOCKWISE_PWM_MIN_def
  ANTICLOCKWISE_PWM_MAX_def ANTICLOCKWISE_SPEED_MIN_def ANTICLOCKWISE_SPEED_MAX_def

lemmas servo_04_bands =
  in_feedback_band_def in_command_interval_def in_clockwise_pwm_band_def
  in_anticlockwise_pwm_band_def in_clockwise_speed_band_def
  in_anticlockwise_speed_band_def

lemma servo_04_fits_int16:
  "fits_int16 NANO_ID \<and> fits_int16 FEEDBACK_PWM_MIN \<and> fits_int16 FEEDBACK_PWM_MAX \<and>
   fits_int16 (FEEDBACK_PWM_MAX + FEEDBACK_PWM_MIN) \<and> fits_int16 FEEDBACK_PWM_MIDDLE \<and>
   fits_int16 COMMAND_PWM_MIN \<and> fits_int16 COMMAND_PWM_MAX \<and>
   fits_int16 COMMAND_PWM_RANGE \<and>
   fits_int16 CLOCKWISE_PWM_MIN \<and> fits_int16 CLOCKWISE_PWM_MAX \<and>
   fits_int16 CLOCKWISE_SPEED_MIN \<and> fits_int16 CLOCKWISE_SPEED_MAX \<and>
   fits_int16 ANTICLOCKWISE_PWM_MIN \<and> fits_int16 ANTICLOCKWISE_PWM_MAX \<and>
   fits_int16 ANTICLOCKWISE_SPEED_MIN \<and> fits_int16 ANTICLOCKWISE_SPEED_MAX"
  by (simp add: fits_int16_def servo_04_literals FEEDBACK_PWM_MIDDLE_def
      COMMAND_PWM_RANGE_def signed_divide_int_def)

text \<open>
  C1.  The macro \<open>FEEDBACK_PWM_MIDDLE\<close> is the truncating integer quotient of
  \<open>FEEDBACK_PWM_MIN + FEEDBACK_PWM_MAX\<close> by 2, and in this header, where the two bounds
  are 504 and 1509, its value is 1006.
\<close>

theorem feedback_pwm_middle_value:
  "FEEDBACK_PWM_MIDDLE = (FEEDBACK_PWM_MIN + FEEDBACK_PWM_MAX) sdiv 2 \<and>
   FEEDBACK_PWM_MIN = 504 \<and> FEEDBACK_PWM_MAX = 1509 \<and> FEEDBACK_PWM_MIDDLE = 1006"
  by (simp add: FEEDBACK_PWM_MIDDLE_def FEEDBACK_PWM_MIN_def FEEDBACK_PWM_MAX_def
      signed_divide_int_def)

text \<open>
  C2.  The macro \<open>COMMAND_PWM_RANGE\<close> is \<open>COMMAND_PWM_MAX - COMMAND_PWM_MIN\<close>, and in this
  header, where the two bounds are 491 and 1495, its value is 1004.
\<close>

theorem command_pwm_range_value:
  "COMMAND_PWM_RANGE = COMMAND_PWM_MAX - COMMAND_PWM_MIN \<and>
   COMMAND_PWM_MIN = 491 \<and> COMMAND_PWM_MAX = 1495 \<and> COMMAND_PWM_RANGE = 1004"
  by (simp add: COMMAND_PWM_RANGE_def COMMAND_PWM_MIN_def COMMAND_PWM_MAX_def)

text \<open>
  C3.  The anticlockwise PWM pair is reversed with respect to the clockwise pair:
  \<open>ANTICLOCKWISE_PWM_MIN = 1891\<close> lies above \<open>ANTICLOCKWISE_PWM_MAX = 1800\<close>, whereas
  \<open>CLOCKWISE_PWM_MIN\<close> lies below \<open>CLOCKWISE_PWM_MAX\<close>.  The anticlockwise speeds are
  both negative and decrease from \<open>ANTICLOCKWISE_SPEED_MIN = -133\<close> to
  \<open>ANTICLOCKWISE_SPEED_MAX = -281\<close>.  So of the two calibration points
  \<open>(SPEED_MIN, PWM_MIN)\<close> and \<open>(SPEED_MAX, PWM_MAX)\<close> the one whose speed has the
  larger magnitude has the smaller PWM.
\<close>

theorem anticlockwise_band_reversed:
  "ANTICLOCKWISE_PWM_MIN = 1891 \<and> ANTICLOCKWISE_PWM_MAX = 1800 \<and>
   ANTICLOCKWISE_PWM_MIN > ANTICLOCKWISE_PWM_MAX \<and>
   CLOCKWISE_PWM_MIN < CLOCKWISE_PWM_MAX \<and>
   ANTICLOCKWISE_SPEED_MIN = - 133 \<and> ANTICLOCKWISE_SPEED_MAX = - 281 \<and>
   ANTICLOCKWISE_SPEED_MIN < 0 \<and> ANTICLOCKWISE_SPEED_MAX < 0 \<and>
   ANTICLOCKWISE_SPEED_MIN > ANTICLOCKWISE_SPEED_MAX \<and>
   \<bar>ANTICLOCKWISE_SPEED_MAX\<bar> > \<bar>ANTICLOCKWISE_SPEED_MIN\<bar>"
  by (simp add: servo_04_literals)

text \<open>
  C7.  The feedback bounds of the header are strictly ordered:
  \<open>FEEDBACK_PWM_MIN = 504\<close> is less than \<open>FEEDBACK_PWM_MAX = 1509\<close>.
\<close>

theorem feedback_pwm_min_less_max:
  "FEEDBACK_PWM_MIN < FEEDBACK_PWM_MAX \<and> FEEDBACK_PWM_MIN = 504 \<and> FEEDBACK_PWM_MAX = 1509"
  by (simp add: FEEDBACK_PWM_MIN_def FEEDBACK_PWM_MAX_def)

text \<open>
  C9.  The three PWM intervals of the header, the command interval \<open>[491, 1495]\<close>, the
  anticlockwise band \<open>[1800, 1891]\<close> and the clockwise band \<open>[2094, 2194]\<close>, lie one strictly
  above the other, so no PWM value belongs to two of them: interval membership picks at
  most one band for every PWM input.
\<close>

theorem pwm_intervals_disjoint:
  "(in_command_interval pwm \<longleftrightarrow> 491 \<le> pwm \<and> pwm \<le> 1495) \<and>
   (in_anticlockwise_pwm_band pwm \<longleftrightarrow> 1800 \<le> pwm \<and> pwm \<le> 1891) \<and>
   (in_clockwise_pwm_band pwm \<longleftrightarrow> 2094 \<le> pwm \<and> pwm \<le> 2194) \<and>
   COMMAND_PWM_MAX < ANTICLOCKWISE_PWM_MAX \<and> ANTICLOCKWISE_PWM_MIN < CLOCKWISE_PWM_MIN \<and>
   \<not> (in_command_interval pwm \<and> in_anticlockwise_pwm_band pwm) \<and>
   \<not> (in_command_interval pwm \<and> in_clockwise_pwm_band pwm) \<and>
   \<not> (in_anticlockwise_pwm_band pwm \<and> in_clockwise_pwm_band pwm)"
  by (simp add: in_command_interval_def in_anticlockwise_pwm_band_def
      in_clockwise_pwm_band_def servo_04_literals)

section \<open>Facts about the conversions\<close>

text \<open>On a non-negative dividend and a positive divisor, C's quotient is the flooring one.\<close>

lemma sdiv_nonneg: "0 \<le> a \<Longrightarrow> 0 < b \<Longrightarrow> a sdiv b = a div (b::int)"
  by (simp add: signed_divide_int_def sgn_if)

lemma div_bounds:
  fixes a n :: int
  assumes "0 < n"
  shows "n * (a div n) \<le> a" "a < n * (a div n) + n"
proof -
  have "n * (a div n) + a mod n = a" by (rule mult_div_mod_eq)
  moreover have "0 \<le> a mod n" "a mod n < n" using assms by simp_all
  ultimately show "n * (a div n) \<le> a" "a < n * (a div n) + n" by linarith+
qed

subsection \<open>Which inputs are refused\<close>






text \<open>
  With a neutral command PWM that lies in neither direction band, the two conversions are
  inverse to each other at the speed zero as well.
\<close>

lemma neutral_round_trip:
  assumes "\<not> in_clockwise_pwm_band n" and "\<not> in_anticlockwise_pwm_band n"
  shows "speedToCommandPwm n 0 = Inr n \<and> commandPwmToSpeed n n = Inr 0"
  using assms by (simp add: speedToCommandPwm_def commandPwmToSpeed_def)

subsection \<open>Round trips through one band\<close>

lemma clockwise_round_trip:
  assumes "in_clockwise_speed_band s"
  shows "\<exists>p t. speedToCommandPwm n s = Inr p \<and> in_clockwise_pwm_band p \<and>
               commandPwmToSpeed n p = Inr t \<and> s - 2 \<le> t \<and> t \<le> s"
proof -
  define d where "d = s - 130"
  define q where "q = (d * 100) div 153"
  define b where "b = (q * 153) div 100"
  from assms have d: "0 \<le> d" "d \<le> 153"
    by (simp_all add: d_def in_clockwise_speed_band_def servo_04_literals)
  have q1: "153 * q \<le> d * 100" "d * 100 < 153 * q + 153"
    unfolding q_def by (rule div_bounds, simp)+
  have q: "0 \<le> q" "q \<le> 100"
    using d q1 by linarith+
  have b1: "100 * b \<le> q * 153" "q * 153 < 100 * b + 100"
    unfolding b_def by (rule div_bounds, simp)+
  have p: "speedToCommandPwm n s = Inr (2094 + q)"
    using assms d
    by (simp add: speedToCommandPwm_def in_clockwise_speed_band_def servo_04_literals
        interpolate_def sdiv_nonneg q_def d_def)
  have band: "in_clockwise_pwm_band (2094 + q)"
    using q by (simp add: in_clockwise_pwm_band_def servo_04_literals)
  have t: "commandPwmToSpeed n (2094 + q) = Inr (130 + b)"
    using band q
    by (simp add: commandPwmToSpeed_def servo_04_literals interpolate_def sdiv_nonneg b_def)
  have hi: "130 + b \<le> s"
    using q1(1) b1(1) d_def by linarith
  have lo: "s - 2 \<le> 130 + b"
  proof -
    have "d < b + 3" using q1(2) b1(2) by linarith
    then show ?thesis using d_def by linarith
  qed
  from p band t lo hi show ?thesis by blast
qed

lemma anticlockwise_round_trip:
  assumes "in_anticlockwise_speed_band s"
  shows "\<exists>p t. speedToCommandPwm n s = Inr p \<and> in_anticlockwise_pwm_band p \<and>
               commandPwmToSpeed n p = Inr t \<and> s \<le> t \<and> t \<le> s + 2"
proof -
  define d where "d = - 133 - s"
  define q where "q = (d * 91) div 148"
  define b where "b = (q * 148) div 91"
  from assms have d: "0 \<le> d" "d \<le> 148" "s < 0"
    by (simp_all add: d_def in_anticlockwise_speed_band_def servo_04_literals)
  have q1: "148 * q \<le> d * 91" "d * 91 < 148 * q + 148"
    unfolding q_def by (rule div_bounds, simp)+
  have q: "0 \<le> q" "q \<le> 91"
    using d q1 by linarith+
  have b1: "91 * b \<le> q * 148" "q * 148 < 91 * b + 91"
    unfolding b_def by (rule div_bounds, simp)+
  have num: "(s - - 133) * (1800 - 1891) = d * 91" by (simp add: d_def)
  have den: "(- 281 - - 133 :: int) = - 148" by simp
  have "interpolate (- 133) (- 281) 1891 1800 s = 1891 + (d * 91) sdiv (- 148)"
    unfolding interpolate_def num den ..
  also have "\<dots> = 1891 - q"
    using d(1) by (simp add: sdiv_nonneg q_def)
  finally have p: "speedToCommandPwm n s = Inr (1891 - q)"
    using assms d(3) by (simp add: speedToCommandPwm_def servo_04_literals)
  have band: "in_anticlockwise_pwm_band (1891 - q)"
    using q by (simp add: in_anticlockwise_pwm_band_def servo_04_literals)
  have ncw: "\<not> in_clockwise_pwm_band (1891 - q)"
    using q by (simp add: in_clockwise_pwm_band_def servo_04_literals)
  have num': "(1891 - q - 1891) * (- 281 - - 133) = q * 148" by simp
  have den': "(1800 - 1891 :: int) = - 91" by simp
  have "interpolate 1891 1800 (- 133) (- 281) (1891 - q) = - 133 + (q * 148) sdiv (- 91)"
    unfolding interpolate_def num' den' ..
  also have "\<dots> = - 133 - b"
    using q(1) by (simp add: sdiv_nonneg b_def)
  finally have t: "commandPwmToSpeed n (1891 - q) = Inr (- 133 - b)"
    using band ncw by (simp add: commandPwmToSpeed_def servo_04_literals)
  have lo: "s \<le> - 133 - b"
    using q1(1) b1(1) d_def by linarith
  have hi: "- 133 - b \<le> s + 2"
  proof -
    have "d < b + 3" using q1(2) b1(2) by linarith
    then show ?thesis using d_def by linarith
  qed
  from p band t lo hi show ?thesis by blast
qed

lemma clockwise_round_trip_rat:
  assumes "in_clockwise_speed_band_rat r"
  shows "\<exists>q. speedToCommandPwm_rat m r = Inr q \<and> in_clockwise_pwm_band_rat q \<and>
             commandPwmToSpeed_rat m q = Inr r"
proof -
  define q where "q = 2094 + (r - 130) * 100 / 153"
  from assms have r: "130 \<le> r" "r \<le> 283"
    by (simp_all add: in_clockwise_speed_band_rat_def servo_04_literals)
  have p: "speedToCommandPwm_rat m r = Inr q"
    using r by (simp add: speedToCommandPwm_rat_def in_clockwise_speed_band_rat_def
        servo_04_literals interpolate_rat_def q_def)
  have band: "in_clockwise_pwm_band_rat q"
    using r by (simp add: in_clockwise_pwm_band_rat_def servo_04_literals q_def)
  have "interpolate_rat 2094 2194 130 283 q = r"
    by (simp add: interpolate_rat_def q_def field_simps)
  then have t: "commandPwmToSpeed_rat m q = Inr r"
    using band by (simp add: commandPwmToSpeed_rat_def servo_04_literals)
  from p band t show ?thesis by blast
qed

lemma anticlockwise_round_trip_rat:
  assumes "in_anticlockwise_speed_band_rat r"
  shows "\<exists>q. speedToCommandPwm_rat m r = Inr q \<and> in_anticlockwise_pwm_band_rat q \<and>
             commandPwmToSpeed_rat m q = Inr r"
proof -
  define q where "q = 1891 + (r - - 133) * (1800 - 1891) / (- 281 - - 133)"
  from assms have r: "- 281 \<le> r" "r \<le> - 133"
    by (simp_all add: in_anticlockwise_speed_band_rat_def servo_04_literals)
  have p: "speedToCommandPwm_rat m r = Inr q"
    using r by (simp add: speedToCommandPwm_rat_def in_anticlockwise_speed_band_rat_def
        servo_04_literals interpolate_rat_def q_def)
  have q': "q = 1891 + (r + 133) * 91 / 148"
    by (simp add: q_def field_simps)
  have band: "in_anticlockwise_pwm_band_rat q"
    using r by (simp add: in_anticlockwise_pwm_band_rat_def servo_04_literals q' field_simps)
  have ncw: "\<not> in_clockwise_pwm_band_rat q"
    using r by (simp add: in_clockwise_pwm_band_rat_def servo_04_literals q' field_simps)
  have "interpolate_rat 1891 1800 (- 133) (- 281) q = r"
    by (simp add: interpolate_rat_def q' field_simps)
  then have t: "commandPwmToSpeed_rat m q = Inr r"
    using band ncw by (simp add: commandPwmToSpeed_rat_def servo_04_literals)
  from p band t show ?thesis by blast
qed

text \<open>
  The tolerance 2 of the integer round trip is attained: the speeds 133 and \<open>-136\<close> come
  back as 131 and \<open>-134\<close>.
\<close>

lemma round_trip_error_attained:
  "speedToCommandPwm n 133 = Inr 2095 \<and> commandPwmToSpeed n 2095 = Inr 131 \<and>
   speedToCommandPwm n (- 136) = Inr 1890 \<and> commandPwmToSpeed n 1890 = Inr (- 134)"
  by (simp add: speedToCommandPwm_def commandPwmToSpeed_def servo_04_bands servo_04_literals
      interpolate_def signed_divide_int_def)

section \<open>The claims about the conversions\<close>

text \<open>
  C4.  On the clockwise band \<open>speedToCommandPwm\<close> sends the speed 130 to the PWM 2094 and
  the speed 283 to the PWM 2194.  The midpoint speed \<open>(130 + 283) / 2\<close>, which is 206 in
  integer arithmetic, is sent to 2143, one below the midpoint PWM
  \<open>(2094 + 2194) / 2 = 2144\<close>; over the rationals the midpoint speed \<open>413/2\<close> is sent to
  2144 exactly.
\<close>

theorem clockwise_band_examples:
  "speedToCommandPwm n 130 = Inr 2094 \<and>
   speedToCommandPwm n 283 = Inr 2194 \<and>
   (\<exists>pwm. speedToCommandPwm n ((130 + 283) sdiv 2) = Inr pwm \<and>
          \<bar>pwm - (2094 + 2194) sdiv 2\<bar> \<le> 1) \<and>
   speedToCommandPwm n ((130 + 283) sdiv 2) = Inr 2143 \<and>
   (2094 + 2194) sdiv 2 = (2144 :: int) \<and>
   speedToCommandPwm_rat m ((130 + 283) / 2) = Inr 2144"
  by (simp add: speedToCommandPwm_def speedToCommandPwm_rat_def in_clockwise_speed_band_def
      in_clockwise_speed_band_rat_def servo_04_literals interpolate_def interpolate_rat_def
      signed_divide_int_def)

text \<open>
  C5.  For every integer speed \<open>s\<close> inside the clockwise band \<open>[130, 283]\<close> or the
  anticlockwise band \<open>[-281, -133]\<close>, \<open>speedToCommandPwm\<close> returns a PWM, \<open>commandPwmToSpeed\<close>
  accepts that PWM, and the speed it returns differs from \<open>s\<close> by at most 2, the rounding
  of the two truncating divisions.  When the interpolation is carried out over the
  rationals, the round trip returns every speed of either band exactly.
\<close>

theorem speed_round_trip:
  "(in_clockwise_speed_band s \<or> in_anticlockwise_speed_band s \<longrightarrow>
      (\<exists>pwm t. speedToCommandPwm n s = Inr pwm \<and> commandPwmToSpeed n pwm = Inr t \<and>
               \<bar>t - s\<bar> \<le> 2)) \<and>
   (in_clockwise_speed_band_rat r \<or> in_anticlockwise_speed_band_rat r \<longrightarrow>
      (\<exists>pwm. speedToCommandPwm_rat m r = Inr pwm \<and> commandPwmToSpeed_rat m pwm = Inr r))"
proof (intro conjI impI)
  assume "in_clockwise_speed_band s \<or> in_anticlockwise_speed_band s"
  then show "\<exists>pwm t. speedToCommandPwm n s = Inr pwm \<and> commandPwmToSpeed n pwm = Inr t \<and>
                     \<bar>t - s\<bar> \<le> 2"
  proof
    assume "in_clockwise_speed_band s"
    from clockwise_round_trip [OF this] obtain pwm t where
      "speedToCommandPwm n s = Inr pwm" "commandPwmToSpeed n pwm = Inr t" "s - 2 \<le> t" "t \<le> s"
      by blast
    moreover from this have "\<bar>t - s\<bar> \<le> 2" by linarith
    ultimately show ?thesis by blast
  next
    assume "in_anticlockwise_speed_band s"
    from anticlockwise_round_trip [OF this] obtain pwm t where
      "speedToCommandPwm n s = Inr pwm" "commandPwmToSpeed n pwm = Inr t" "s \<le> t" "t \<le> s + 2"
      by blast
    moreover from this have "\<bar>t - s\<bar> \<le> 2" by linarith
    ultimately show ?thesis by blast
  qed
next
  assume "in_clockwise_speed_band_rat r \<or> in_anticlockwise_speed_band_rat r"
  then show "\<exists>pwm. speedToCommandPwm_rat m r = Inr pwm \<and> commandPwmToSpeed_rat m pwm = Inr r"
    using clockwise_round_trip_rat [of r] anticlockwise_round_trip_rat [of r] by blast
qed

theorem speed_round_trip_witness:
  "in_clockwise_speed_band 133 \<and>
   (\<exists>pwm t. speedToCommandPwm 1992 133 = Inr pwm \<and> commandPwmToSpeed 1992 pwm = Inr t \<and>
            \<bar>t - 133\<bar> \<le> 2) \<and>
   in_anticlockwise_speed_band_rat (- 407 / 2) \<and>
   (\<exists>pwm. speedToCommandPwm_rat (3985 / 2) (- 407 / 2) = Inr pwm \<and>
          commandPwmToSpeed_rat (3985 / 2) pwm = Inr (- 407 / 2))"
proof -
  have i: "in_clockwise_speed_band 133"
    by (simp add: in_clockwise_speed_band_def servo_04_literals)
  have r: "in_anticlockwise_speed_band_rat (- 407 / 2)"
    by (simp add: in_anticlockwise_speed_band_rat_def servo_04_literals)
  from i r speed_round_trip [of 133 1992 "- 407 / 2" "3985 / 2"] show ?thesis by blast
qed

text \<open>
  C6.  \<open>feedbackPwmToPosition\<close> is monotonic non-decreasing on the feedback band: for PWM
  values \<open>p1 \<le> p2\<close>, both in \<open>[504, 1509]\<close>, both conversions return a position and the
  position of \<open>p1\<close> is at most the position of \<open>p2\<close>.
\<close>

theorem feedback_position_monotone:
  assumes "in_feedback_band p1" and "in_feedback_band p2" and "p1 \<le> p2"
  shows "\<exists>x1 x2. feedbackPwmToPosition p1 = Inr x1 \<and> feedbackPwmToPosition p2 = Inr x2 \<and>
                 x1 \<le> x2"
proof -
  have x1: "feedbackPwmToPosition p1 = Inr ((of_int p1 - 504) / 1005)"
    using assms(1)
    by (simp add: feedbackPwmToPosition_def interpolate_rat_def FEEDBACK_PWM_MIN_def
        FEEDBACK_PWM_MAX_def)
  have x2: "feedbackPwmToPosition p2 = Inr ((of_int p2 - 504) / 1005)"
    using assms(2)
    by (simp add: feedbackPwmToPosition_def interpolate_rat_def FEEDBACK_PWM_MIN_def
        FEEDBACK_PWM_MAX_def)
  have "(of_int p1 - 504) / (1005 :: rat) \<le> (of_int p2 - 504) / 1005"
    using assms(3) by (simp add: divide_right_mono)
  with x1 x2 show ?thesis by blast
qed

theorem feedback_position_monotone_witness:
  "in_feedback_band 504 \<and> in_feedback_band 1509 \<and> (504 :: int) \<le> 1509 \<and>
   (\<exists>x1 x2. feedbackPwmToPosition 504 = Inr x1 \<and> feedbackPwmToPosition 1509 = Inr x2 \<and>
            x1 \<le> x2)"
proof -
  have a: "in_feedback_band 504" and b: "in_feedback_band 1509"
    by (simp_all add: in_feedback_band_def FEEDBACK_PWM_MIN_def FEEDBACK_PWM_MAX_def)
  have c: "(504 :: int) \<le> 1509" by simp
  from a b c feedback_position_monotone [OF a b c] show ?thesis by blast
qed






end
